theory Spec2Isabelle
  imports Main "HOL-Library.AList"
begin

section \<open>JavaScript values used by \<open>src/App.js\<close>\<close>

text \<open>
  Strings are \<open>string\<close> (character lists); the only character the code inspects is the
  separator \<open>:\<close>.

  Every object the code reads by a computed key is a plain object on top of
  \<open>Object.prototype\<close>: the rows handed over by the CSV parser, and \<open>colorMap\<close>,
  \<open>initialVisibility\<close> and the selection, which the code creates itself with \<open>{}\<close>.
  Reading \<open>obj[k]\<close> yields the own property \<open>k\<close> when there is one, else the member of
  \<open>Object.prototype\<close> of that name when there is one, else \<open>undefined\<close>.
\<close>

datatype 'v jsprop = Value 'v | Inherited string | Undefined

definition object_prototype_names :: "string list" where
  "object_prototype_names =
     [''constructor'', ''hasOwnProperty'', ''isPrototypeOf'', ''propertyIsEnumerable'',
      ''toLocaleString'', ''toString'', ''valueOf'', ''__proto__'',
      ''__defineGetter__'', ''__defineSetter__'', ''__lookupGetter__'', ''__lookupSetter__'']"

text \<open>
  The text that string conversion gives for an inherited member: \<open>__proto__\<close> reads as
  \<open>Object.prototype\<close> itself, \<open>constructor\<close> is the function \<open>Object\<close>, and every
  other member is a native function of its own name. The wording of a native function's
  text is the one of V8 and JavaScriptCore.
\<close>

definition member_text :: "string \<Rightarrow> string" where
  "member_text name =
     (if name = ''__proto__'' then ''[object Object]''
      else if name = ''constructor'' then ''function Object() { [native code] }''
      else ''function '' @ name @ ''() { [native code] }'')"

text \<open>
  A raw row is given by its own properties, the cells of the file under their header
  names; all cells are strings. \<open>row[h]\<close> is the cell when the file has a column \<open>h\<close>,
  and otherwise whatever the row inherits under that name.
\<close>

type_synonym RawRow = "string \<rightharpoonup> string"

definition row_get :: "RawRow \<Rightarrow> string \<Rightarrow> string jsprop" where
  "row_get row k =
     (case row k of
        Some v \<Rightarrow> Value v
      | None \<Rightarrow> if k \<in> set object_prototype_names then Inherited k else Undefined)"

text \<open>
  \<open>!v\<close> is true exactly for \<open>undefined\<close> and the empty string; a non-empty string
  and an inherited member (a function or an object) are truthy.
\<close>

definition truthy :: "string jsprop \<Rightarrow> bool" where
  "truthy v = (case v of Value s \<Rightarrow> s \<noteq> [] | Inherited name \<Rightarrow> True | Undefined \<Rightarrow> False)"

text \<open>\<open>v || d\<close> for a string default \<open>d\<close>.\<close>

definition or_default :: "string jsprop \<Rightarrow> string \<Rightarrow> string jsprop" where
  "or_default v d = (if truthy v then v else Value d)"

text \<open>
  String conversion of a value, as done for an interpolation into a template literal
  and for a value used as a property key.
\<close>

definition to_text :: "string jsprop \<Rightarrow> string" where
  "to_text v =
     (case v of Value s \<Rightarrow> s | Inherited name \<Rightarrow> member_text name | Undefined \<Rightarrow> ''undefined'')"

text \<open>
  \<open>colorMap\<close>, \<open>initialVisibility\<close> and the selection are used as dictionaries keyed by
  experiment tags. Such an object is its list of own properties (in creation order):
  \<^item> reading follows the rule above;
  \<^item> assigning to a key creates or overwrites the own property, except for the key
    \<open>__proto__\<close>: unless the object already has an own property of that name, the
    assignment reaches the inherited accessor, whose setter ignores a value that is
    neither an object nor \<open>null\<close>, so assigning a string or a boolean changes
    nothing;
  \<^item> \<open>Object.keys\<close> lists the own properties. (JavaScript lists keys that look like
    array indices first; the only loop over \<open>Object.keys\<close> in the code stores into
    another object, so the order does not show.)
\<close>

type_synonym 'v jsobject = "(string \<times> 'v) list"

definition obj_get :: "'v jsobject \<Rightarrow> string \<Rightarrow> 'v jsprop" where
  "obj_get obj k =
     (case map_of obj k of
        Some v \<Rightarrow> Value v
      | None \<Rightarrow> if k \<in> set object_prototype_names then Inherited k else Undefined)"

definition obj_set :: "'v jsobject \<Rightarrow> string \<Rightarrow> 'v \<Rightarrow> 'v jsobject" where
  "obj_set obj k v =
     (if k = ''__proto__'' \<and> map_of obj k = None then obj else AList.update k v obj)"

definition obj_keys :: "'v jsobject \<Rightarrow> string list" where
  "obj_keys obj = map fst obj"

text \<open>A \<open>Set\<close> keeps its elements in insertion order, each once.\<close>

definition set_add :: "'a list \<Rightarrow> 'a \<Rightarrow> 'a list" where
  "set_add s x = (if x \<in> set s then s else s @ [x])"

text \<open>
  \<open>s.split(':')\<close> cuts at every separator and never returns an empty array;
  \<open>parts.join(':')\<close> puts the separators back.
\<close>

fun split_str :: "char \<Rightarrow> string \<Rightarrow> string list" where
  "split_str c [] = [[]]"
| "split_str c (x # xs) =
     (let parts = split_str c xs
      in if x = c then [] # parts else (x # hd parts) # tl parts)"

fun join_str :: "char \<Rightarrow> string list \<Rightarrow> string" where
  "join_str c [] = []"
| "join_str c [p] = p"
| "join_str c (p # q # ps) = p @ c # join_str c (q # ps)"

text \<open>\<open>s.endsWith(suffix)\<close>.\<close>

definition endsWith :: "string \<Rightarrow> string \<Rightarrow> bool" where
  "endsWith s suf \<longleftrightarrow> length suf \<le> length s \<and> drop (length s - length suf) s = suf"

section \<open>Data model\<close>

text \<open>The five header-name fields of the form (component state of \<open>App\<close>).\<close>

record HeaderConfig =
  modelHeader :: string
  fromNodeHeader :: string
  relationshipHeader :: string
  toNodeHeader :: string
  experimentHeader :: string

text \<open>
  The object pushed onto \<open>allExtractedEdges\<close>. The two ids are strings; the relationship
  and the experiment tag are the values as read from the row.
\<close>

record ExtractedEdge =
  source :: string
  target :: string
  relationship :: "string jsprop"
  "experiment" :: "string jsprop"

text \<open>A node \<open>{id, label, model}\<close>.\<close>

record Node =
  node_id :: string
  node_label :: string
  node_model :: string

text \<open>The value returned by \<open>processCSVData\<close>.\<close>

record ProcessedData =
  nodes :: "Node list"
  edges :: "ExtractedEdge list"
  experimentColorMap :: "string jsobject"

text \<open>
  An edge of \<open>fullGraphData\<close>: \<open>{id, source, target, label, color, experiment}\<close>. The
  colour is whatever \<open>colorMap[edge.experiment]\<close> reads, the tag being converted to
  a property key.
\<close>

record Edge =
  edge_id :: string
  edge_source :: string
  edge_target :: string
  edge_label :: "string jsprop"
  edge_color :: "string jsprop"
  edge_experiment :: "string jsprop"

record FullGraphData =
  graph_nodes :: "Node list"
  graph_edges :: "Edge list"

record FilteredGraphData =
  view_nodes :: "Node list"
  view_links :: "Edge list"

definition colors :: "string list" where
  "colors = [''#FF6B6B'', ''#4ECDC4'', ''#45B7D1'', ''#96CEB4'',
             ''#FFEEAD'', ''#FF9999'', ''#77DD77'', ''#AEC6CF'']"

section \<open>\<open>processCSVData\<close>\<close>

text \<open>The three accumulators of the row loop.\<close>

record Extraction =
  overallNodeSet :: "string list"
  allExtractedEdges :: "ExtractedEdge list"
  experiments :: "string jsprop list"

definition empty_extraction :: Extraction where
  "empty_extraction = \<lparr>overallNodeSet = [], allExtractedEdges = [], experiments = []\<rparr>"

text \<open>The test that makes the loop body return early.\<close>

definition skipped :: "HeaderConfig \<Rightarrow> RawRow \<Rightarrow> bool" where
  "skipped h row \<longleftrightarrow>
     \<not> truthy (row_get row (fromNodeHeader h)) \<or> \<not> truthy (row_get row (toNodeHeader h)) \<or>
     \<not> truthy (row_get row (modelHeader h)) \<or> \<not> truthy (row_get row (relationshipHeader h))"

text \<open>
  The edge descriptor the loop body pushes for a row it does not skip. The two ids are
  template literals; the relationship and the experiment tag are stored as read.
\<close>

definition extracted_edge :: "HeaderConfig \<Rightarrow> RawRow \<Rightarrow> ExtractedEdge" where
  "extracted_edge h row =
     (let fromNode = row_get row (fromNodeHeader h);
          toNode = row_get row (toNodeHeader h);
          model = row_get row (modelHeader h);
          experiment = or_default (row_get row (experimentHeader h)) ''undefined'';
          relationship = row_get row (relationshipHeader h);
          sourceId = to_text model @ '':'' @ to_text fromNode;
          targetId = to_text model @ '':'' @ to_text toNode
      in \<lparr>source = sourceId, target = targetId,
          relationship = relationship, experiment = experiment\<rparr>)"

text \<open>The body of \<open>csvData.forEach\<close>.\<close>

definition row_step :: "HeaderConfig \<Rightarrow> RawRow \<Rightarrow> Extraction \<Rightarrow> Extraction" where
  "row_step h row acc =
     (if skipped h row then acc
      else let e = extracted_edge h row
           in \<lparr>overallNodeSet = set_add (set_add (overallNodeSet acc) (source e)) (target e),
               allExtractedEdges = allExtractedEdges acc @ [e],
               experiments = set_add (experiments acc) (experiment e)\<rparr>)"

definition extract_rows :: "HeaderConfig \<Rightarrow> RawRow list \<Rightarrow> Extraction" where
  "extract_rows h csvData = fold (row_step h) csvData empty_extraction"

text \<open>\<open>Array.from(experiments).forEach((exp, index) => colorMap[exp] = ...)\<close>.\<close>

definition assign_colors :: "string jsprop list \<Rightarrow> string jsobject" where
  "assign_colors exps =
     fold (\<lambda>(exp, index) colorMap.
             obj_set colorMap (to_text exp) (colors ! (index mod length colors)))
          (zip exps [0..<length exps]) []"

text \<open>The callback of \<open>Array.from(overallNodeSet).map\<close>.\<close>

definition make_node :: "string \<Rightarrow> Node" where
  "make_node nodeId =
     (let parts = split_str CHR '':'' nodeId;
          model = hd parts;
          node_name = join_str CHR '':'' (drop 1 parts)
      in \<lparr>node_id = nodeId, node_label = node_name, node_model = model\<rparr>)"

definition processCSVData :: "HeaderConfig \<Rightarrow> RawRow list \<Rightarrow> ProcessedData" where
  "processCSVData h csvData =
     (let acc = extract_rows h csvData;
          colorMap = assign_colors (experiments acc)
      in \<lparr>nodes = map make_node (overallNodeSet acc),
          edges = allExtractedEdges acc,
          experimentColorMap = colorMap\<rparr>)"

section \<open>\<open>handleVisualize\<close>\<close>

text \<open>
  The component state that the load reads and writes. The collaborators are parameters:
  \<open>fetch_text\<close> is \<open>fetch(url)\<close> followed by \<open>response.text()\<close> (\<open>None\<close> when either
  promise rejects, which lands in the \<open>catch\<close> block), \<open>papa_parse\<close> is the result
  object \<open>Papa.parse\<close> passes to \<open>complete\<close>, and \<open>uuidv4 k\<close> is what the \<open>k\<close>-th call
  of \<open>uuidv4()\<close> during the load returns. Alerts and console output are not state and are
  left out.
\<close>

record AppState =
  url :: string
  headers :: HeaderConfig
  fullGraphData :: FullGraphData
  isLoading :: bool
  experimentColors :: "string jsobject"
  visibleExperiments :: "bool jsobject"

record ParseResults =
  parsed_data :: "RawRow list"
  parse_errors :: "string list"

definition empty_graph :: FullGraphData where
  "empty_graph = \<lparr>graph_nodes = [], graph_edges = []\<rparr>"

text \<open>The state of a freshly mounted component (the \<open>useState\<close> initial values).\<close>

definition default_headers :: HeaderConfig where
  "default_headers =
     \<lparr>modelHeader = ''model'', fromNodeHeader = ''from_node'',
      relationshipHeader = ''relationship'', toNodeHeader = ''to_node'',
      experimentHeader = ''experiment''\<rparr>"

definition initial_state :: AppState where
  "initial_state =
     \<lparr>url = [], headers = default_headers,
      fullGraphData = empty_graph, isLoading = False,
      experimentColors = [], visibleExperiments = []\<rparr>"

text \<open>\<open>Object.keys(colorMap).forEach(exp => initialVisibility[exp] = true)\<close>.\<close>

definition initial_visibility :: "string jsobject \<Rightarrow> bool jsobject" where
  "initial_visibility colorMap =
     fold (\<lambda>exp initialVisibility. obj_set initialVisibility exp True) (obj_keys colorMap) []"

text \<open>The callback of \<open>processedData.edges.map\<close>, for the \<open>k\<close>-th edge.\<close>

definition make_edge :: "(nat \<Rightarrow> string) \<Rightarrow> string jsobject \<Rightarrow> ExtractedEdge \<times> nat \<Rightarrow> Edge" where
  "make_edge uuidv4 colorMap = (\<lambda>(edge, k).
     \<lparr>edge_id = ''e-'' @ uuidv4 k,
      edge_source = source edge,
      edge_target = target edge,
      edge_label = relationship edge,
      edge_color = obj_get colorMap (to_text (experiment edge)),
      edge_experiment = experiment edge\<rparr>)"

definition loaded_graph :: "(nat \<Rightarrow> string) \<Rightarrow> ProcessedData \<Rightarrow> FullGraphData" where
  "loaded_graph uuidv4 processedData =
     \<lparr>graph_nodes = nodes processedData,
      graph_edges = map (make_edge uuidv4 (experimentColorMap processedData))
                        (zip (edges processedData) [0..<length (edges processedData)])\<rparr>"

definition handleVisualize ::
  "(string \<Rightarrow> string option) \<Rightarrow> (string \<Rightarrow> ParseResults) \<Rightarrow> (nat \<Rightarrow> string) \<Rightarrow>
   AppState \<Rightarrow> AppState" where
  "handleVisualize fetch_text papa_parse uuidv4 st =
     (if url st = [] \<or> \<not> endsWith (url st) ''.csv'' then st
      else
        let st1 = st\<lparr>isLoading := True, fullGraphData := empty_graph,
                     visibleExperiments := [], experimentColors := []\<rparr>
        in case fetch_text (url st) of
             None \<Rightarrow> st1\<lparr>isLoading := False\<rparr>
           | Some csvText \<Rightarrow>
               let results = papa_parse csvText
               in if length (parse_errors results) > 0 then st1\<lparr>isLoading := False\<rparr>
                  else
                    let processedData = processCSVData (headers st) (parsed_data results);
                        colorMap = experimentColorMap processedData
                    in st1\<lparr>visibleExperiments := initial_visibility colorMap,
                           experimentColors := colorMap,
                           fullGraphData := loaded_graph uuidv4 processedData,
                           isLoading := False\<rparr>)"

section \<open>\<open>filteredGraphData\<close>\<close>

text \<open>The memoised view, a function of \<open>fullGraphData\<close> and \<open>visibleExperiments\<close>.\<close>

definition visible :: "bool jsobject \<Rightarrow> Edge \<Rightarrow> bool" where
  "visible sel edge \<longleftrightarrow> obj_get sel (to_text (edge_experiment edge)) = Value True"

definition filteredGraphData :: "FullGraphData \<Rightarrow> bool jsobject \<Rightarrow> FilteredGraphData" where
  "filteredGraphData g sel =
     (if length (graph_nodes g) = 0 then \<lparr>view_nodes = [], view_links = []\<rparr>
      else
        let visibleEdges = filter (visible sel) (graph_edges g);
            visibleNodeIds =
              fold (\<lambda>edge ids. set_add (set_add ids (edge_source edge)) (edge_target edge))
                   visibleEdges [];
            visibleNodes = filter (\<lambda>node. node_id node \<in> set visibleNodeIds) (graph_nodes g)
        in \<lparr>view_nodes = visibleNodes, view_links = visibleEdges\<rparr>)"

section \<open>Predicates used to state the properties\<close>

text \<open>
  The data-model invariant of a full graph: every edge references nodes of the same
  graph. It is executable (\<open>list_all\<close> over the edge list).
\<close>

definition no_dangling :: "FullGraphData \<Rightarrow> bool" where
  "no_dangling g \<longleftrightarrow>
     list_all (\<lambda>e. edge_source e \<in> set (map node_id (graph_nodes g)) \<and>
                   edge_target e \<in> set (map node_id (graph_nodes g))) (graph_edges g)"

text \<open>The distinct elements of a list in the order of their first occurrence.\<close>

fun first_seen :: "'a list \<Rightarrow> 'a list" where
  "first_seen [] = []"
| "first_seen (x # xs) = x # filter (\<lambda>y. y \<noteq> x) (first_seen xs)"

section \<open>Concrete inputs\<close>

text \<open>
  Rows, collaborators and states at which the theorems below are instantiated. The rows
  use the default header names. \<open>row_r3\<close> has an empty experiment cell, \<open>row_missing\<close>
  has no \<open>to_node\<close> column, \<open>row_e2\<close> has a separator inside its node name,
  \<open>row_proto\<close> carries the experiment tag \<open>__proto__\<close> and \<open>row_nomodel\<close> has no
  model column at all. \<open>constructor_headers\<close> and \<open>toString_headers\<close> are header
  forms in which one header field holds the name of a member of \<open>Object.prototype\<close>.
\<close>

definition row_e1 :: RawRow where
  "row_e1 = [''model'' \<mapsto> ''m1'', ''from_node'' \<mapsto> ''a'', ''relationship'' \<mapsto> ''r1'',
             ''to_node'' \<mapsto> ''b'', ''experiment'' \<mapsto> ''e1'']"

definition row_e2 :: RawRow where
  "row_e2 = [''model'' \<mapsto> ''m1'', ''from_node'' \<mapsto> ''a:x'', ''relationship'' \<mapsto> ''r2'',
             ''to_node'' \<mapsto> ''c'', ''experiment'' \<mapsto> ''e2'']"

definition row_r3 :: RawRow where
  "row_r3 = [''model'' \<mapsto> ''m1'', ''from_node'' \<mapsto> ''a'', ''relationship'' \<mapsto> ''r3'',
             ''to_node'' \<mapsto> ''b'', ''experiment'' \<mapsto> '''']"

definition row_missing :: RawRow where
  "row_missing = [''model'' \<mapsto> ''m1'', ''from_node'' \<mapsto> ''a'', ''relationship'' \<mapsto> ''r1'',
                  ''experiment'' \<mapsto> ''e1'']"

definition row_proto :: RawRow where
  "row_proto = [''model'' \<mapsto> ''m1'', ''from_node'' \<mapsto> ''a'', ''relationship'' \<mapsto> ''r1'',
                ''to_node'' \<mapsto> ''b'', ''experiment'' \<mapsto> ''__proto__'']"

definition row_nomodel :: RawRow where
  "row_nomodel = [''from_node'' \<mapsto> ''a'', ''relationship'' \<mapsto> ''r1'',
                  ''to_node'' \<mapsto> ''b'', ''experiment'' \<mapsto> ''e1'']"

definition constructor_headers :: HeaderConfig where
  "constructor_headers = default_headers\<lparr>modelHeader := ''constructor''\<rparr>"

definition toString_headers :: HeaderConfig where
  "toString_headers = default_headers\<lparr>experimentHeader := ''toString''\<rparr>"

definition example_uuid :: "nat \<Rightarrow> string" where
  "example_uuid k = replicate (Suc k) CHR ''0''"

definition example_url :: string where
  "example_url = ''http://h/d.csv''"

definition fetch_ok :: "string \<Rightarrow> string option" where
  "fetch_ok u = Some ''csv text''"

definition fetch_rejects :: "string \<Rightarrow> string option" where
  "fetch_rejects u = None"

definition parse_e1_e2 :: "string \<Rightarrow> ParseResults" where
  "parse_e1_e2 csvText = \<lparr>parsed_data = [row_e1, row_e2], parse_errors = []\<rparr>"

definition parse_proto :: "string \<Rightarrow> ParseResults" where
  "parse_proto csvText = \<lparr>parsed_data = [row_proto, row_e1], parse_errors = []\<rparr>"

definition ready_state :: AppState where
  "ready_state =
     \<lparr>url = example_url, headers = default_headers,
      fullGraphData = empty_graph, isLoading = False,
      experimentColors = [], visibleExperiments = []\<rparr>"

definition loaded_state :: AppState where
  "loaded_state = handleVisualize fetch_ok parse_e1_e2 example_uuid ready_state"

definition proto_state :: AppState where
  "proto_state = handleVisualize fetch_ok parse_proto example_uuid ready_state"

definition example_graph :: FullGraphData where
  "example_graph = loaded_graph example_uuid (processCSVData default_headers [row_e1, row_e2])"

section \<open>The row loop\<close>

lemma set_set_add: "set (set_add s x) = insert x (set s)"
  by (auto simp: set_add_def)

lemma distinct_set_add: "distinct (set_add s x) = distinct s"
  by (auto simp: set_add_def)

lemma row_step_skipped: "skipped h row \<Longrightarrow> row_step h row acc = acc"
  by (simp add: row_step_def)

text \<open>
  Under a header name that \<open>Object.prototype\<close> does not have, a row reads as its cell
  or as \<open>undefined\<close>; a cell that is present is read as such under any header name.
\<close>

lemma row_get_own: "row k = Some v \<Longrightarrow> row_get row k = Value v"
  by (simp add: row_get_def)

lemma row_get_plain:
  "k \<notin> set object_prototype_names \<Longrightarrow>
     row_get row k = (case row k of Some v \<Rightarrow> Value v | None \<Rightarrow> Undefined)"
  by (simp add: row_get_def)

lemma truthy_plain:
  "k \<notin> set object_prototype_names \<Longrightarrow> truthy (row_get row k) \<longleftrightarrow> row k \<notin> {None, Some []}"
  by (auto simp: row_get_plain truthy_def split: option.splits)

lemma skipped_plain:
  assumes "modelHeader h \<notin> set object_prototype_names"
    and "fromNodeHeader h \<notin> set object_prototype_names"
    and "toNodeHeader h \<notin> set object_prototype_names"
    and "relationshipHeader h \<notin> set object_prototype_names"
  shows "skipped h row \<longleftrightarrow>
     row (modelHeader h) \<in> {None, Some []} \<or> row (fromNodeHeader h) \<in> {None, Some []} \<or>
     row (toNodeHeader h) \<in> {None, Some []} \<or> row (relationshipHeader h) \<in> {None, Some []}"
proof -
  have 1: "truthy (row_get row (modelHeader h)) \<longleftrightarrow> row (modelHeader h) \<notin> {None, Some []}"
    by (rule truthy_plain [OF assms(1)])
  have 2: "truthy (row_get row (fromNodeHeader h)) \<longleftrightarrow>
             row (fromNodeHeader h) \<notin> {None, Some []}"
    by (rule truthy_plain [OF assms(2)])
  have 3: "truthy (row_get row (toNodeHeader h)) \<longleftrightarrow> row (toNodeHeader h) \<notin> {None, Some []}"
    by (rule truthy_plain [OF assms(3)])
  have 4: "truthy (row_get row (relationshipHeader h)) \<longleftrightarrow>
             row (relationshipHeader h) \<notin> {None, Some []}"
    by (rule truthy_plain [OF assms(4)])
  from 1 2 3 4 show ?thesis unfolding skipped_def by blast
qed

lemma fold_row_step_edges:
  "allExtractedEdges (fold (row_step h) rows acc) =
     allExtractedEdges acc @ map (extracted_edge h) (filter (\<lambda>r. \<not> skipped h r) rows)"
  by (induction rows arbitrary: acc) (simp_all add: row_step_def Let_def)

lemma fold_row_step_nodes:
  "set (overallNodeSet (fold (row_step h) rows acc)) =
     set (overallNodeSet acc)
     \<union> source ` set (map (extracted_edge h) (filter (\<lambda>r. \<not> skipped h r) rows))
     \<union> target ` set (map (extracted_edge h) (filter (\<lambda>r. \<not> skipped h r) rows))"
  by (induction rows arbitrary: acc) (auto simp: row_step_def Let_def set_set_add)

lemma fold_row_step_distinct:
  "distinct (overallNodeSet acc) \<Longrightarrow> distinct (overallNodeSet (fold (row_step h) rows acc))"
  by (induction rows arbitrary: acc) (simp_all add: row_step_def Let_def distinct_set_add)

text \<open>The \<open>experiments\<close> set lists the tags of the accepted rows in first-seen order.\<close>

lemma set_first_seen: "set (first_seen xs) = set xs"
  by (induction xs) auto

lemma distinct_first_seen: "distinct (first_seen xs)"
  by (induction xs) (auto simp: set_first_seen)

lemma fold_row_step_experiments:
  "experiments (fold (row_step h) rows acc) =
     experiments acc @
     filter (\<lambda>x. x \<notin> set (experiments acc))
       (first_seen (map experiment (map (extracted_edge h) (filter (\<lambda>r. \<not> skipped h r) rows))))"
proof (induction rows arbitrary: acc)
  case Nil
  show ?case by simp
next
  case (Cons r rows)
  show ?case
  proof (cases "skipped h r")
    case True
    then show ?thesis using Cons [of acc] by (simp add: row_step_skipped)
  next
    case False
    let ?t = "experiment (extracted_edge h r)"
    let ?fs = "first_seen (map experiment (map (extracted_edge h)
                 (filter (\<lambda>r. \<not> skipped h r) rows)))"
    have e: "experiments (row_step h r acc) = set_add (experiments acc) ?t"
      using False by (simp add: row_step_def Let_def)
    show ?thesis
    proof (cases "?t \<in> set (experiments acc)")
      case True
      have "filter (\<lambda>x. x \<notin> set (experiments acc)) (filter (\<lambda>y. y \<noteq> ?t) ?fs) =
            filter (\<lambda>x. x \<notin> set (experiments acc)) ?fs"
        using True by (auto intro!: filter_cong)
      then show ?thesis
        using False True Cons [of "row_step h r acc"] by (simp add: e set_add_def)
    next
      case nin: False
      have "filter (\<lambda>x. x \<notin> set (experiments acc @ [?t])) ?fs =
            filter (\<lambda>x. x \<notin> set (experiments acc)) (filter (\<lambda>y. y \<noteq> ?t) ?fs)"
        by (auto intro!: filter_cong)
      then show ?thesis
        using False nin Cons [of "row_step h r acc"] by (simp add: e set_add_def)
    qed
  qed
qed

section \<open>The built graph\<close>

lemma node_id_make_node: "node_id (make_node x) = x"
  by (simp add: make_node_def Let_def)

lemma map_node_id_nodes:
  "map node_id (nodes (processCSVData h rows)) = overallNodeSet (extract_rows h rows)"
  by (simp add: processCSVData_def Let_def o_def node_id_make_node)

lemma edges_processCSVData:
  "edges (processCSVData h rows) = map (extracted_edge h) (filter (\<lambda>r. \<not> skipped h r) rows)"
  by (simp add: processCSVData_def Let_def extract_rows_def fold_row_step_edges
      empty_extraction_def)

lemma node_ids_processCSVData:
  "set (map node_id (nodes (processCSVData h rows))) =
     source ` set (edges (processCSVData h rows)) \<union> target ` set (edges (processCSVData h rows))"
  unfolding map_node_id_nodes edges_processCSVData
  by (simp add: extract_rows_def fold_row_step_nodes empty_extraction_def)

lemma distinct_node_ids: "distinct (map node_id (nodes (processCSVData h rows)))"
  unfolding map_node_id_nodes
  by (simp add: extract_rows_def fold_row_step_distinct empty_extraction_def)

lemma processCSVData_drop:
  "skipped h row \<Longrightarrow> processCSVData h (pre @ row # post) = processCSVData h (pre @ post)"
  by (simp add: processCSVData_def extract_rows_def row_step_skipped Let_def)

lemma extracted_edge_accepted:
  assumes "row (modelHeader h) = Some m" "row (fromNodeHeader h) = Some f"
    "row (toNodeHeader h) = Some t" "row (relationshipHeader h) = Some r"
    and "experimentHeader h \<notin> set object_prototype_names"
  shows "extracted_edge h row =
     \<lparr>source = m @ '':'' @ f, target = m @ '':'' @ t, relationship = Value r,
      experiment = Value (case row (experimentHeader h) of
                            None \<Rightarrow> ''undefined''
                          | Some x \<Rightarrow> if x = [] then ''undefined'' else x)\<rparr>"
  using assms
  by (simp add: extracted_edge_def Let_def to_text_def or_default_def row_get_own
      row_get_plain truthy_def split: option.splits)

text \<open>
  With header names that \<open>Object.prototype\<close> does not have, a row in which the model,
  the source node, the target node or the relationship is missing or empty is dropped,
  and any other row yields exactly one edge descriptor with the ids \<open>model:from_node\<close>
  and \<open>model:to_node\<close>, the relationship string, and the experiment value or the
  literal \<open>undefined\<close> as tag.
\<close>

lemma plain_headers_normalise:
  assumes "modelHeader h \<notin> set object_prototype_names"
    and "fromNodeHeader h \<notin> set object_prototype_names"
    and "toNodeHeader h \<notin> set object_prototype_names"
    and "relationshipHeader h \<notin> set object_prototype_names"
    and "experimentHeader h \<notin> set object_prototype_names"
  shows "(row (modelHeader h) \<in> {None, Some []} \<or> row (fromNodeHeader h) \<in> {None, Some []} \<or>
    row (toNodeHeader h) \<in> {None, Some []} \<or> row (relationshipHeader h) \<in> {None, Some []}
    \<longrightarrow> row_step h row acc = acc \<and>
        processCSVData h (pre @ row # post) = processCSVData h (pre @ post)) \<and>
   (\<forall>m f t r.
      row (modelHeader h) = Some m \<and> m \<noteq> [] \<and> row (fromNodeHeader h) = Some f \<and> f \<noteq> [] \<and>
      row (toNodeHeader h) = Some t \<and> t \<noteq> [] \<and> row (relationshipHeader h) = Some r \<and> r \<noteq> []
      \<longrightarrow> allExtractedEdges (row_step h row acc) =
            allExtractedEdges acc @
            [\<lparr>source = m @ '':'' @ f, target = m @ '':'' @ t, relationship = Value r,
              experiment = Value (case row (experimentHeader h) of
                                    None \<Rightarrow> ''undefined''
                                  | Some x \<Rightarrow> if x = [] then ''undefined'' else x)\<rparr>] \<and>
          edges (processCSVData h (pre @ row # post)) =
            edges (processCSVData h pre) @
            \<lparr>source = m @ '':'' @ f, target = m @ '':'' @ t, relationship = Value r,
             experiment = Value (case row (experimentHeader h) of
                                   None \<Rightarrow> ''undefined''
                                 | Some x \<Rightarrow> if x = [] then ''undefined'' else x)\<rparr>
            # edges (processCSVData h post))"
proof (intro conjI impI allI)
  assume "row (modelHeader h) \<in> {None, Some []} \<or> row (fromNodeHeader h) \<in> {None, Some []} \<or>
    row (toNodeHeader h) \<in> {None, Some []} \<or> row (relationshipHeader h) \<in> {None, Some []}"
  then have s: "skipped h row" using skipped_plain [OF assms(1-4)] by simp
  show "row_step h row acc = acc" using s by (rule row_step_skipped)
  show "processCSVData h (pre @ row # post) = processCSVData h (pre @ post)"
    using s by (rule processCSVData_drop)
next
  fix m f t r
  assume a: "row (modelHeader h) = Some m \<and> m \<noteq> [] \<and> row (fromNodeHeader h) = Some f \<and> f \<noteq> [] \<and>
      row (toNodeHeader h) = Some t \<and> t \<noteq> [] \<and> row (relationshipHeader h) = Some r \<and> r \<noteq> []"
  then have ns: "\<not> skipped h row" by (simp add: skipped_def truthy_def row_get_own)
  from a have e: "extracted_edge h row =
     \<lparr>source = m @ '':'' @ f, target = m @ '':'' @ t, relationship = Value r,
      experiment = Value (case row (experimentHeader h) of
                            None \<Rightarrow> ''undefined''
                          | Some x \<Rightarrow> if x = [] then ''undefined'' else x)\<rparr>"
    using assms(5) by (simp add: extracted_edge_accepted)
  show "allExtractedEdges (row_step h row acc) =
            allExtractedEdges acc @
            [\<lparr>source = m @ '':'' @ f, target = m @ '':'' @ t, relationship = Value r,
              experiment = Value (case row (experimentHeader h) of
                                    None \<Rightarrow> ''undefined''
                                  | Some x \<Rightarrow> if x = [] then ''undefined'' else x)\<rparr>]"
    using ns by (simp add: row_step_def Let_def e)
  show "edges (processCSVData h (pre @ row # post)) =
            edges (processCSVData h pre) @
            \<lparr>source = m @ '':'' @ f, target = m @ '':'' @ t, relationship = Value r,
             experiment = Value (case row (experimentHeader h) of
                                   None \<Rightarrow> ''undefined''
                                 | Some x \<Rightarrow> if x = [] then ''undefined'' else x)\<rparr>
            # edges (processCSVData h post)"
    using ns by (simp add: edges_processCSVData e)
qed

lemma experiments_first_seen:
  "experiments (extract_rows h rows) =
     first_seen (map experiment (edges (processCSVData h rows)))"
  by (simp add: extract_rows_def fold_row_step_experiments empty_extraction_def
      edges_processCSVData)

lemma distinct_experiments: "distinct (experiments (extract_rows h rows))"
  by (simp add: experiments_first_seen distinct_first_seen)

lemma set_experiments:
  "set (experiments (extract_rows h rows)) = experiment ` set (edges (processCSVData h rows))"
  by (simp add: experiments_first_seen set_first_seen)

lemma count_in_distinct:
  "distinct ys \<Longrightarrow> x \<in> set ys \<Longrightarrow> length (filter (\<lambda>i. i = x) ys) = 1"
  by (induction ys) (auto simp: filter_empty_conv)

lemma one_node_per_id:
  assumes "x \<in> set (map node_id (nodes (processCSVData h rows)))"
  shows "length (filter (\<lambda>n. node_id n = x) (nodes (processCSVData h rows))) = 1"
proof -
  have "length (filter (\<lambda>n. node_id n = x) (nodes (processCSVData h rows))) =
        length (filter (\<lambda>i. i = x) (map node_id (nodes (processCSVData h rows))))"
    by (simp add: filter_map o_def)
  also have "\<dots> = 1"
    using count_in_distinct [OF distinct_node_ids assms] .
  finally show ?thesis .
qed

text \<open>Every node of the built graph is an endpoint of one of its edges.\<close>

lemma no_isolated_nodes:
  "\<forall>n \<in> set (nodes (processCSVData h rows)).
     \<exists>e \<in> set (edges (processCSVData h rows)). source e = node_id n \<or> target e = node_id n"
proof
  fix n assume "n \<in> set (nodes (processCSVData h rows))"
  then have "node_id n \<in> set (map node_id (nodes (processCSVData h rows)))" by simp
  then show "\<exists>e \<in> set (edges (processCSVData h rows)). source e = node_id n \<or> target e = node_id n"
    unfolding node_ids_processCSVData by auto
qed

section \<open>Splitting a node id\<close>

lemma split_str_nonempty: "split_str c s \<noteq> []"
  by (induction s) (simp_all add: Let_def)

lemma join_split_str: "join_str c (split_str c s) = s"
proof (induction s)
  case Nil
  show ?case by simp
next
  case (Cons x xs)
  obtain p ps where ps: "split_str c xs = p # ps"
    using split_str_nonempty [of c xs] by (cases "split_str c xs") auto
  show ?case
  proof (cases "x = c")
    case True
    with Cons ps show ?thesis by (simp add: Let_def)
  next
    case False
    with Cons ps show ?thesis by (cases ps) (simp_all add: Let_def)
  qed
qed

lemma hd_split_str: "hd (split_str c s) = takeWhile (\<lambda>x. x \<noteq> c) s"
  by (induction s) (simp_all add: Let_def)

lemma tl_split_str: "join_str c (drop 1 (split_str c s)) = drop 1 (dropWhile (\<lambda>x. x \<noteq> c) s)"
  by (induction s) (simp_all add: join_split_str drop_Suc Let_def)

lemma take_drop_sep:
  assumes "c \<in> set s"
  shows "takeWhile (\<lambda>x. x \<noteq> c) s @ c # drop 1 (dropWhile (\<lambda>x. x \<noteq> c) s) = s"
proof -
  from assms have "dropWhile (\<lambda>x. x \<noteq> c) s \<noteq> []" by (simp add: dropWhile_eq_Nil_conv)
  then obtain y ys where d: "dropWhile (\<lambda>x. x \<noteq> c) s = y # ys"
    by (cases "dropWhile (\<lambda>x. x \<noteq> c) s") auto
  then have "y = c" using hd_dropWhile [of "\<lambda>x. x \<noteq> c" s] by simp
  with d have "takeWhile (\<lambda>x. x \<noteq> c) s @ c # drop 1 (dropWhile (\<lambda>x. x \<noteq> c) s) =
      takeWhile (\<lambda>x. x \<noteq> c) s @ dropWhile (\<lambda>x. x \<noteq> c) s" by simp
  then show ?thesis by simp
qed

lemma make_node_eq:
  "make_node nodeId =
     \<lparr>node_id = nodeId,
      node_label = drop 1 (dropWhile (\<lambda>x. x \<noteq> CHR '':'') nodeId),
      node_model = takeWhile (\<lambda>x. x \<noteq> CHR '':'') nodeId\<rparr>"
  by (simp add: make_node_def Let_def hd_split_str tl_split_str [unfolded One_nat_def])

lemma sep_in_source: "CHR '':'' \<in> set (source (extracted_edge h r))"
  by (simp add: extracted_edge_def Let_def)

lemma sep_in_target: "CHR '':'' \<in> set (target (extracted_edge h r))"
  by (simp add: extracted_edge_def Let_def)

lemma sep_in_node_id:
  assumes "n \<in> set (nodes (processCSVData h rows))"
  shows "CHR '':'' \<in> set (node_id n)"
proof -
  from assms have "node_id n \<in> set (map node_id (nodes (processCSVData h rows)))" by simp
  then show ?thesis
    unfolding node_ids_processCSVData edges_processCSVData
    by (auto simp: sep_in_source sep_in_target)
qed

lemma node_fields:
  assumes "n \<in> set (nodes (processCSVData h rows))"
  shows "node_model n = takeWhile (\<lambda>x. x \<noteq> CHR '':'') (node_id n)"
    and "node_label n = drop 1 (dropWhile (\<lambda>x. x \<noteq> CHR '':'') (node_id n))"
  using assms
  by (auto simp: processCSVData_def Let_def make_node_def hd_split_str
        tl_split_str [unfolded One_nat_def])

section \<open>The colour map and the initial selection\<close>

lemma map_fst_of_zip:
  "length xs = length ys \<Longrightarrow> map (\<lambda>p. f (fst p)) (zip xs ys) = map f xs"
  by (induction xs ys rule: list_induct2) simp_all

lemma fold_colors_other:
  "k \<notin> (\<lambda>p. to_text (fst p)) ` set kvs \<Longrightarrow>
     map_of (fold (\<lambda>(exp, index) colorMap. obj_set colorMap (to_text exp) (c index)) kvs acc) k =
     map_of acc k"
  by (induction kvs arbitrary: acc) (auto simp: obj_set_def update_conv)

lemma fold_colors_hit:
  "distinct (map (\<lambda>p. to_text (fst p)) kvs) \<Longrightarrow> (x, i) \<in> set kvs \<Longrightarrow>
   to_text x \<noteq> ''__proto__'' \<Longrightarrow>
     map_of (fold (\<lambda>(exp, index) colorMap. obj_set colorMap (to_text exp) (c index)) kvs acc)
       (to_text x) = Some (c i)"
proof (induction kvs arbitrary: acc)
  case Nil
  then show ?case by simp
next
  case (Cons kv kvs)
  show ?case
  proof (cases "(x, i) = kv")
    case True
    with Cons.prems have nk: "to_text x \<notin> (\<lambda>p. to_text (fst p)) ` set kvs" by force
    have "map_of (fold (\<lambda>(exp, index) colorMap. obj_set colorMap (to_text exp) (c index)) kvs
                   (obj_set acc (to_text x) (c i))) (to_text x) =
          map_of (obj_set acc (to_text x) (c i)) (to_text x)"
      using nk by (rule fold_colors_other)
    also have "\<dots> = Some (c i)"
      using Cons.prems(3) by (simp add: obj_set_def update_conv)
    finally show ?thesis using True [symmetric] by simp
  next
    case False
    with Cons.prems have "(x, i) \<in> set kvs" "distinct (map (\<lambda>p. to_text (fst p)) kvs)" by auto
    then show ?thesis using Cons.IH Cons.prems(3) by simp
  qed
qed

lemma fold_colors_proto:
  "map_of acc ''__proto__'' = None \<Longrightarrow>
     map_of (fold (\<lambda>(exp, index) colorMap. obj_set colorMap (to_text exp) (c index)) kvs acc)
       ''__proto__'' = None"
  by (induction kvs arbitrary: acc) (auto simp: obj_set_def update_conv)

lemma fold_colors_dom:
  "map_of acc ''__proto__'' = None \<Longrightarrow>
     dom (map_of (fold (\<lambda>(exp, index) colorMap. obj_set colorMap (to_text exp) (c index)) kvs acc)) =
     dom (map_of acc) \<union> ((\<lambda>p. to_text (fst p)) ` set kvs - {''__proto__''})"
proof (induction kvs arbitrary: acc)
  case Nil
  then show ?case by simp
next
  case (Cons kv kvs)
  obtain x i where kv: "kv = (x, i)" by (cases kv)
  have p: "map_of (obj_set acc (to_text x) (c i)) ''__proto__'' = None"
    using Cons.prems by (simp add: obj_set_def update_conv)
  have d: "dom (map_of (obj_set acc (to_text x) (c i))) =
           dom (map_of acc) \<union> ({to_text x} - {''__proto__''})"
    using Cons.prems by (auto simp: obj_set_def update_conv' split: if_splits)
  show ?case
    using Cons.IH [OF p] d by (auto simp: kv)
qed

text \<open>
  When the tags have pairwise distinct key texts, every tag whose key is not
  \<open>__proto__\<close> reads back the palette colour of its position; the key \<open>__proto__\<close>
  is never stored and reads back the inherited member. String tags have their own text
  as key, so for them distinct tags have distinct keys.
\<close>

lemma assign_colors_palette:
  assumes "distinct (map to_text exps)" and "i < length exps"
    and "to_text (exps ! i) \<noteq> ''__proto__''"
  shows "obj_get (assign_colors exps) (to_text (exps ! i)) =
           Value (colors ! (i mod length colors))"
proof -
  have "map (\<lambda>p. to_text (fst p)) (zip exps [0..<length exps]) = map to_text exps"
    by (rule map_fst_of_zip) simp
  then have d: "distinct (map (\<lambda>p. to_text (fst p)) (zip exps [0..<length exps]))"
    using assms(1) by simp
  have m: "(exps ! i, i) \<in> set (zip exps [0..<length exps])"
    using assms(2) by (auto simp: in_set_zip)
  show ?thesis
    unfolding assign_colors_def obj_get_def
    using fold_colors_hit [OF d m assms(3), of "\<lambda>index. colors ! (index mod length colors)" "[]"]
    by simp
qed

lemma distinct_string_tags:
  assumes "distinct exps" and "\<forall>x \<in> set exps. \<exists>s. x = Value s"
  shows "distinct (map to_text exps)"
proof -
  have "inj_on to_text (set exps)"
  proof (rule inj_onI)
    fix x y assume "x \<in> set exps" "y \<in> set exps" "to_text x = to_text y"
    moreover from this assms(2) obtain s t where "x = Value s" "y = Value t" by blast
    ultimately show "x = y" by (simp add: to_text_def)
  qed
  with assms(1) show ?thesis by (simp add: distinct_map)
qed

lemma assign_colors_proto:
  "obj_get (assign_colors exps) ''__proto__'' = Inherited ''__proto__''"
  unfolding assign_colors_def obj_get_def
  using fold_colors_proto [of "[]" "\<lambda>index. colors ! (index mod length colors)"
      "zip exps [0..<length exps]"]
  by (simp add: object_prototype_names_def)

lemma keys_assign_colors:
  "set (obj_keys (assign_colors exps)) = to_text ` set exps - {''__proto__''}"
proof -
  have "(\<lambda>p. to_text (fst p)) ` set (zip exps [0..<length exps]) = to_text ` set exps"
  proof -
    have "map (\<lambda>p. to_text (fst p)) (zip exps [0..<length exps]) = map to_text exps"
      by (rule map_fst_of_zip) simp
    then have "set (map (\<lambda>p. to_text (fst p)) (zip exps [0..<length exps])) =
               set (map to_text exps)"
      by (rule arg_cong)
    then show ?thesis by (simp only: set_map)
  qed
  then have "dom (map_of (assign_colors exps)) = to_text ` set exps - {''__proto__''}"
    unfolding assign_colors_def
    using fold_colors_dom [of "[]" "\<lambda>index. colors ! (index mod length colors)"
        "zip exps [0..<length exps]"]
    by simp
  then show ?thesis by (simp add: obj_keys_def dom_map_of_conv_image_fst)
qed

lemma fold_visibility:
  "map_of acc ''__proto__'' = None \<Longrightarrow>
     map_of (fold (\<lambda>exp initialVisibility. obj_set initialVisibility exp True) ks acc) k =
     (if k \<in> set ks \<and> k \<noteq> ''__proto__'' then Some True else map_of acc k)"
  by (induction ks arbitrary: acc) (auto simp: obj_set_def update_conv)

lemma initial_visibility_true:
  "map_of (initial_visibility colorMap) k =
     (if k \<in> set (obj_keys colorMap) \<and> k \<noteq> ''__proto__'' then Some True else None)"
  unfolding initial_visibility_def by (simp add: fold_visibility)

text \<open>
  The edges of \<open>fullGraphData\<close> are the extracted edges, one for one; the \<open>k\<close>-th
  carries the \<open>k\<close>-th generated id.
\<close>

lemma length_loaded_edges:
  "length (graph_edges (loaded_graph u pd)) = length (edges pd)"
  by (simp add: loaded_graph_def)

lemma map_snd_of_zip:
  "length xs = length ys \<Longrightarrow> map (\<lambda>p. f (snd p)) (zip xs ys) = map f ys"
  by (induction xs ys rule: list_induct2) simp_all

lemma edge_ids_loaded:
  "map edge_id (graph_edges (loaded_graph u pd)) =
     map (\<lambda>k. ''e-'' @ u k) [0..<length (edges pd)]"
  using map_snd_of_zip [of "edges pd" "[0..<length (edges pd)]" "\<lambda>k. ''e-'' @ u k"]
  by (simp add: loaded_graph_def make_edge_def split_def o_def)

lemma distinct_edge_ids:
  assumes "inj u"
  shows "distinct (map edge_id (graph_edges (loaded_graph u pd)))"
proof -
  have "inj_on (\<lambda>k. ''e-'' @ u k) (set [0..<length (edges pd)])"
    using assms by (auto simp: inj_on_def dest: injD)
  then show ?thesis
    unfolding edge_ids_loaded by (simp add: distinct_map)
qed

text \<open>All edges of one load with the same tag read the same colour.\<close>

lemma same_tag_same_color:
  "\<forall>e \<in> set (graph_edges (loaded_graph u pd)).
     edge_color e = obj_get (experimentColorMap pd) (to_text (edge_experiment e))"
  by (auto simp: loaded_graph_def make_edge_def)

section \<open>The filtered view\<close>

lemma visible_iff: "visible sel e \<longleftrightarrow> map_of sel (to_text (edge_experiment e)) = Some True"
  by (simp add: visible_def obj_get_def split: option.splits)

lemma visible_fun:
  "visible sel = (\<lambda>e. map_of sel (to_text (edge_experiment e)) = Some True)"
  by (rule ext) (rule visible_iff)

lemma incident_iff:
  "node_id n \<in> edge_source ` set es \<union> edge_target ` set es \<longleftrightarrow>
     (\<exists>e \<in> set es. edge_source e = node_id n \<or> edge_target e = node_id n)"
  by force

lemma set_fold_ids:
  "set (fold (\<lambda>edge ids. set_add (set_add ids (edge_source edge)) (edge_target edge)) es acc) =
     set acc \<union> edge_source ` set es \<union> edge_target ` set es"
  by (induction es arbitrary: acc) (auto simp: set_set_add)

lemma view_links_eq:
  "view_links (filteredGraphData g sel) =
     (if graph_nodes g = [] then [] else filter (visible sel) (graph_edges g))"
  by (simp add: filteredGraphData_def Let_def)

lemma view_nodes_eq:
  "view_nodes (filteredGraphData g sel) =
     filter (\<lambda>n. node_id n \<in> edge_source ` set (filter (visible sel) (graph_edges g)) \<union>
                             edge_target ` set (filter (visible sel) (graph_edges g)))
            (graph_nodes g)"
  by (simp add: filteredGraphData_def Let_def set_fold_ids)

lemma no_dangling_no_nodes: "no_dangling g \<Longrightarrow> graph_nodes g = [] \<Longrightarrow> graph_edges g = []"
  by (cases "graph_edges g") (simp_all add: no_dangling_def)

text \<open>
  Every graph the component holds is free of dangling references: the initial one, and
  the one left by any call of \<open>handleVisualize\<close>.
\<close>

lemma no_dangling_empty: "no_dangling empty_graph"
  by (simp add: no_dangling_def empty_graph_def)

lemma loaded_graph_no_dangling: "no_dangling (loaded_graph u (processCSVData h rows))"
  unfolding no_dangling_def loaded_graph_def
  using node_ids_processCSVData [of h rows]
  by (auto simp: list_all_iff make_edge_def dest!: set_zip_leftD)

lemma handleVisualize_no_dangling:
  "no_dangling (fullGraphData st) \<Longrightarrow>
     no_dangling (fullGraphData (handleVisualize fetch_text papa_parse u st))"
  by (auto simp: handleVisualize_def Let_def loaded_graph_no_dangling no_dangling_empty
      split: option.splits)

text \<open>
  When no tag of an accepted row has the key \<open>__proto__\<close>, the view under the
  selection that a load installs is the whole graph.
\<close>

lemma initial_view_is_full_graph:
  assumes "''__proto__'' \<notin> to_text ` set (experiments (extract_rows h rows))"
  shows "filteredGraphData (loaded_graph u (processCSVData h rows))
           (initial_visibility (experimentColorMap (processCSVData h rows))) =
         \<lparr>view_nodes = graph_nodes (loaded_graph u (processCSVData h rows)),
          view_links = graph_edges (loaded_graph u (processCSVData h rows))\<rparr>"
proof -
  let ?pd = "processCSVData h rows"
  let ?g = "loaded_graph u ?pd"
  let ?sel = "initial_visibility (experimentColorMap ?pd)"
  have cm: "experimentColorMap ?pd = assign_colors (experiments (extract_rows h rows))"
    by (simp add: processCSVData_def Let_def)
  have vis: "visible ?sel e" if "e \<in> set (graph_edges ?g)" for e
  proof -
    from that obtain x where "x \<in> set (edges ?pd)" "edge_experiment e = experiment x"
      by (auto simp: loaded_graph_def make_edge_def dest!: set_zip_leftD)
    then have "edge_experiment e \<in> set (experiments (extract_rows h rows))"
      by (simp add: set_experiments)
    then have k: "to_text (edge_experiment e) \<in> to_text ` set (experiments (extract_rows h rows))"
      by (rule imageI)
    with assms have "to_text (edge_experiment e) \<noteq> ''__proto__''" by auto
    with k show ?thesis
      by (simp add: visible_iff initial_visibility_true cm keys_assign_colors)
  qed
  then have f: "filter (visible ?sel) (graph_edges ?g) = graph_edges ?g"
    by (simp add: filter_id_conv)
  have l: "view_links (filteredGraphData ?g ?sel) = graph_edges ?g"
    using no_dangling_no_nodes [OF loaded_graph_no_dangling [of u h rows]]
    by (simp add: view_links_eq f)
  have inc: "node_id n \<in> edge_source ` set (graph_edges ?g) \<union> edge_target ` set (graph_edges ?g)"
    if "n \<in> set (graph_nodes ?g)" for n
  proof -
    from that have "n \<in> set (nodes ?pd)" by (simp add: loaded_graph_def)
    with no_isolated_nodes [of h rows] obtain x where x: "x \<in> set (edges ?pd)"
      "source x = node_id n \<or> target x = node_id n" by blast
    from x(1) obtain k where "k < length (edges ?pd)" "edges ?pd ! k = x"
      by (auto simp: in_set_conv_nth)
    then have "(x, k) \<in> set (zip (edges ?pd) [0..<length (edges ?pd)])"
      by (auto simp: in_set_zip)
    then have "make_edge u (experimentColorMap ?pd) (x, k) \<in> set (graph_edges ?g)"
      by (simp add: loaded_graph_def)
    with x(2) show ?thesis
      by (force simp: make_edge_def)
  qed
  have n: "view_nodes (filteredGraphData ?g ?sel) = graph_nodes ?g"
    using inc by (simp add: view_nodes_eq f filter_id_conv)
  from l n show ?thesis by (cases "filteredGraphData ?g ?sel") simp
qed

section \<open>The model at the concrete inputs\<close>

lemmas eval_defs =
  processCSVData_def extract_rows_def row_step_def skipped_def truthy_def extracted_edge_def
  row_get_def object_prototype_names_def member_text_def
  to_text_def or_default_def empty_extraction_def set_add_def assign_colors_def obj_set_def
  colors_def make_node_eq Let_def default_headers_def

lemma processed_e1_e2:
  "processCSVData default_headers [row_e1, row_e2] =
     \<lparr>nodes = [\<lparr>node_id = ''m1:a'', node_label = ''a'', node_model = ''m1''\<rparr>,
               \<lparr>node_id = ''m1:b'', node_label = ''b'', node_model = ''m1''\<rparr>,
               \<lparr>node_id = ''m1:a:x'', node_label = ''a:x'', node_model = ''m1''\<rparr>,
               \<lparr>node_id = ''m1:c'', node_label = ''c'', node_model = ''m1''\<rparr>],
      edges = [\<lparr>source = ''m1:a'', target = ''m1:b'', relationship = Value ''r1'', experiment = Value ''e1''\<rparr>,
               \<lparr>source = ''m1:a:x'', target = ''m1:c'', relationship = Value ''r2'', experiment = Value ''e2''\<rparr>],
      experimentColorMap = [(''e1'', ''#FF6B6B''), (''e2'', ''#4ECDC4'')]\<rparr>"
  by (simp add: eval_defs row_e1_def row_e2_def)

lemma processed_proto:
  "processCSVData default_headers [row_proto, row_e1] =
     \<lparr>nodes = [\<lparr>node_id = ''m1:a'', node_label = ''a'', node_model = ''m1''\<rparr>,
               \<lparr>node_id = ''m1:b'', node_label = ''b'', node_model = ''m1''\<rparr>],
      edges = [\<lparr>source = ''m1:a'', target = ''m1:b'', relationship = Value ''r1'', experiment = Value ''__proto__''\<rparr>,
               \<lparr>source = ''m1:a'', target = ''m1:b'', relationship = Value ''r1'', experiment = Value ''e1''\<rparr>],
      experimentColorMap = [(''e1'', ''#4ECDC4'')]\<rparr>"
  by (simp add: eval_defs row_e1_def row_proto_def)

lemma experiments_proto:
  "experiments (extract_rows default_headers [row_proto, row_e1]) =
     [Value ''__proto__'', Value ''e1'']"
  by (simp add: eval_defs row_e1_def row_proto_def)

lemma processed_nomodel:
  "processCSVData constructor_headers [row_nomodel] =
     \<lparr>nodes = [\<lparr>node_id = ''function Object() { [native code] }:a'', node_label = ''a'',
                 node_model = ''function Object() { [native code] }''\<rparr>,
               \<lparr>node_id = ''function Object() { [native code] }:b'', node_label = ''b'',
                 node_model = ''function Object() { [native code] }''\<rparr>],
      edges = [\<lparr>source = ''function Object() { [native code] }:a'',
                target = ''function Object() { [native code] }:b'',
                relationship = Value ''r1'', experiment = Value ''e1''\<rparr>],
      experimentColorMap = [(''e1'', ''#FF6B6B'')]\<rparr>"
  by (simp add: eval_defs row_nomodel_def constructor_headers_def)

lemma processed_toString:
  "processCSVData toString_headers [row_e1] =
     \<lparr>nodes = [\<lparr>node_id = ''m1:a'', node_label = ''a'', node_model = ''m1''\<rparr>,
               \<lparr>node_id = ''m1:b'', node_label = ''b'', node_model = ''m1''\<rparr>],
      edges = [\<lparr>source = ''m1:a'', target = ''m1:b'', relationship = Value ''r1'',
                experiment = Inherited ''toString''\<rparr>],
      experimentColorMap = [(''function toString() { [native code] }'', ''#FF6B6B'')]\<rparr>"
  by (simp add: eval_defs row_e1_def toString_headers_def)

lemma example_graph_eq:
  "example_graph =
     \<lparr>graph_nodes = [\<lparr>node_id = ''m1:a'', node_label = ''a'', node_model = ''m1''\<rparr>,
                     \<lparr>node_id = ''m1:b'', node_label = ''b'', node_model = ''m1''\<rparr>,
                     \<lparr>node_id = ''m1:a:x'', node_label = ''a:x'', node_model = ''m1''\<rparr>,
                     \<lparr>node_id = ''m1:c'', node_label = ''c'', node_model = ''m1''\<rparr>],
      graph_edges = [\<lparr>edge_id = ''e-0'', edge_source = ''m1:a'', edge_target = ''m1:b'',
                      edge_label = Value ''r1'', edge_color = Value ''#FF6B6B'',
                      edge_experiment = Value ''e1''\<rparr>,
                     \<lparr>edge_id = ''e-00'', edge_source = ''m1:a:x'', edge_target = ''m1:c'',
                      edge_label = Value ''r2'', edge_color = Value ''#4ECDC4'',
                      edge_experiment = Value ''e2''\<rparr>]\<rparr>"
  by (simp add: example_graph_def loaded_graph_def processed_e1_e2 make_edge_def obj_get_def
      to_text_def example_uuid_def)

lemma inj_example_uuid: "inj example_uuid"
proof (rule injI)
  fix x y assume "example_uuid x = example_uuid y"
  then have "length (example_uuid x) = length (example_uuid y)" by simp
  then show "x = y" by (simp add: example_uuid_def)
qed

lemma valid_example_url: "example_url \<noteq> [] \<and> endsWith example_url ''.csv''"
  by (simp add: example_url_def endsWith_def)

lemma loaded_state_eq:
  "loaded_state =
     \<lparr>url = example_url, headers = default_headers,
      fullGraphData = example_graph, isLoading = False,
      experimentColors = [(''e1'', ''#FF6B6B''), (''e2'', ''#4ECDC4'')],
      visibleExperiments = [(''e1'', True), (''e2'', True)]\<rparr>"
  using valid_example_url
  by (simp add: loaded_state_def handleVisualize_def ready_state_def fetch_ok_def
      parse_e1_e2_def example_graph_def processed_e1_e2 initial_visibility_def obj_keys_def
      obj_set_def Let_def)

lemma proto_state_eq:
  "proto_state =
     \<lparr>url = example_url, headers = default_headers,
      fullGraphData =
        \<lparr>graph_nodes = [\<lparr>node_id = ''m1:a'', node_label = ''a'', node_model = ''m1''\<rparr>,
                        \<lparr>node_id = ''m1:b'', node_label = ''b'', node_model = ''m1''\<rparr>],
         graph_edges = [\<lparr>edge_id = ''e-0'', edge_source = ''m1:a'', edge_target = ''m1:b'',
                         edge_label = Value ''r1'', edge_color = Inherited ''__proto__'',
                         edge_experiment = Value ''__proto__''\<rparr>,
                        \<lparr>edge_id = ''e-00'', edge_source = ''m1:a'', edge_target = ''m1:b'',
                         edge_label = Value ''r1'', edge_color = Value ''#4ECDC4'',
                         edge_experiment = Value ''e1''\<rparr>]\<rparr>,
      isLoading = False,
      experimentColors = [(''e1'', ''#4ECDC4'')],
      visibleExperiments = [(''e1'', True)]\<rparr>"
  using valid_example_url
  by (simp add: proto_state_def handleVisualize_def ready_state_def fetch_ok_def
      parse_proto_def processed_proto initial_visibility_def obj_keys_def
      obj_set_def Let_def loaded_graph_def make_edge_def obj_get_def to_text_def
      object_prototype_names_def example_uuid_def)

section \<open>Properties of the load and of the view\<close>

text \<open>
  C1 (as amended). A load that passes the URL check and then fails, because the fetch
  rejects or because the parser reports errors, ends with the full graph, the colour map
  and the selection all empty and the loading flag cleared, whatever they were before:
  \<open>handleVisualize\<close> clears the three of them before it fetches and a failure restores
  nothing. Nothing of the failed load is shown.
\<close>

theorem failed_load_clears_state:
  assumes "url st \<noteq> []" and "endsWith (url st) ''.csv''"
    and "fetch_text (url st) = None \<or>
         (\<exists>csvText. fetch_text (url st) = Some csvText \<and> parse_errors (papa_parse csvText) \<noteq> [])"
  shows "handleVisualize fetch_text papa_parse uuid st =
           st\<lparr>fullGraphData := empty_graph, visibleExperiments := [],
              experimentColors := [], isLoading := False\<rparr>"
  using assms by (auto simp: handleVisualize_def Let_def)

theorem failed_load_clears_state_witness:
  "url loaded_state \<noteq> [] \<and> endsWith (url loaded_state) ''.csv'' \<and>
   fetch_rejects (url loaded_state) = None \<and>
   handleVisualize fetch_rejects parse_e1_e2 example_uuid loaded_state =
     \<lparr>url = example_url, headers = default_headers,
      fullGraphData = empty_graph, isLoading = False,
      experimentColors = [], visibleExperiments = []\<rparr>"
proof -
  have u: "url loaded_state \<noteq> []" and e: "endsWith (url loaded_state) ''.csv''"
    using valid_example_url by (simp_all add: loaded_state_eq)
  have f: "fetch_rejects (url loaded_state) = None \<or>
         (\<exists>csvText. fetch_rejects (url loaded_state) = Some csvText \<and>
            parse_errors (parse_e1_e2 csvText) \<noteq> [])"
    by (simp add: fetch_rejects_def)
  show ?thesis
    using failed_load_clears_state [where fetch_text = fetch_rejects and papa_parse = parse_e1_e2
        and st = loaded_state and uuid = example_uuid, OF u e f] u e
    by (simp add: fetch_rejects_def loaded_state_eq)
qed

text \<open>
  C1 as stated fails: with a graph of four nodes loaded, a load whose fetch rejects
  leaves a state whose graph, colour map and selection are not those held before.
\<close>

theorem failed_load_loses_prior_graph:
  "graph_nodes (fullGraphData loaded_state) \<noteq> [] \<and>
   fetch_rejects (url loaded_state) = None \<and>
   \<not> (fullGraphData (handleVisualize fetch_rejects parse_e1_e2 example_uuid loaded_state)
        = fullGraphData loaded_state \<and>
      experimentColors (handleVisualize fetch_rejects parse_e1_e2 example_uuid loaded_state)
        = experimentColors loaded_state \<and>
      visibleExperiments (handleVisualize fetch_rejects parse_e1_e2 example_uuid loaded_state)
        = visibleExperiments loaded_state)"
  using valid_example_url
  by (simp add: handleVisualize_def loaded_state_eq fetch_rejects_def example_graph_eq
      empty_graph_def Let_def)

text \<open>
  C2. For every header configuration and every list of raw rows, each edge of the graph
  returned by \<open>processCSVData\<close> has its source id and its target id among the ids of the
  nodes of that graph.
\<close>

theorem edges_have_endpoints:
  "\<forall>e \<in> set (edges (processCSVData h rows)).
     source e \<in> set (map node_id (nodes (processCSVData h rows))) \<and>
     target e \<in> set (map node_id (nodes (processCSVData h rows)))"
  unfolding node_ids_processCSVData by blast

theorem edges_have_endpoints_witness:
  "\<lparr>source = ''m1:a:x'', target = ''m1:c'', relationship = Value ''r2'', experiment = Value ''e2''\<rparr>
     \<in> set (edges (processCSVData default_headers [row_e1, row_e2])) \<and>
   ''m1:a:x'' \<in> set (map node_id (nodes (processCSVData default_headers [row_e1, row_e2]))) \<and>
   ''m1:c'' \<in> set (map node_id (nodes (processCSVData default_headers [row_e1, row_e2])))"
proof -
  let ?e = "\<lparr>source = ''m1:a:x'', target = ''m1:c'', relationship = Value ''r2'', experiment = Value ''e2''\<rparr>"
  have m: "?e \<in> set (edges (processCSVData default_headers [row_e1, row_e2]))"
    by (simp add: processed_e1_e2)
  from edges_have_endpoints [of default_headers "[row_e1, row_e2]"] m
  have "source ?e \<in> set (map node_id (nodes (processCSVData default_headers [row_e1, row_e2]))) \<and>
        target ?e \<in> set (map node_id (nodes (processCSVData default_headers [row_e1, row_e2])))"
    by (rule bspec)
  with m show ?thesis by simp
qed

text \<open>
  C3, at two header forms. With the model header set to \<open>constructor\<close> and a row that
  has no such column, the model is missing, yet the row is kept: the value read is the
  inherited function, and the row yields an edge and two nodes whose ids start with the
  text of that function. With the experiment header set to \<open>toString\<close> and a
  row that has no such column, the experiment value is missing, yet the tag is the
  inherited function and not the literal \<open>undefined\<close>. With header names that
  \<open>Object.prototype\<close> does not have, rows are dropped and normalised as described
  (\<open>plain_headers_normalise\<close>).
\<close>

theorem inherited_header_keeps_row:
  "row_nomodel (modelHeader constructor_headers) = None \<and>
   edges (processCSVData constructor_headers [row_nomodel]) =
     [\<lparr>source = ''function Object() { [native code] }:a'',
       target = ''function Object() { [native code] }:b'',
       relationship = Value ''r1'', experiment = Value ''e1''\<rparr>] \<and>
   map node_id (nodes (processCSVData constructor_headers [row_nomodel])) =
     [''function Object() { [native code] }:a'', ''function Object() { [native code] }:b''] \<and>
   row_e1 (experimentHeader toString_headers) = None \<and>
   map experiment (edges (processCSVData toString_headers [row_e1])) = [Inherited ''toString''] \<and>
   map experiment (edges (processCSVData toString_headers [row_e1])) \<noteq> [Value ''undefined'']"
proof -
  have "row_nomodel (modelHeader constructor_headers) = None"
    and "row_e1 (experimentHeader toString_headers) = None"
    by (simp_all add: row_nomodel_def row_e1_def constructor_headers_def toString_headers_def
        default_headers_def)
  then show ?thesis
    by (simp add: processed_nomodel processed_toString)
qed

text \<open>
  C4. For every full graph (a graph without dangling references, which every graph held
  by the component is, see \<open>handleVisualize_no_dangling\<close>) and every selection, the
  links of the filtered view are exactly the edges whose experiment tag is an own key of
  the selection with the value \<open>true\<close>, in their order. An edge whose tag is absent from
  the selection or mapped to \<open>false\<close> is excluded. (The tag is used as a property
  key, that is, as its text.)
\<close>

theorem visibility_opt_in:
  assumes "no_dangling g"
  shows "view_links (filteredGraphData g sel) =
           filter (\<lambda>e. map_of sel (to_text (edge_experiment e)) = Some True) (graph_edges g) \<and>
         (e \<in> set (view_links (filteredGraphData g sel)) \<longleftrightarrow>
            e \<in> set (graph_edges g) \<and> map_of sel (to_text (edge_experiment e)) = Some True) \<and>
         (map_of sel (to_text (edge_experiment e)) = None \<or> map_of sel (to_text (edge_experiment e)) = Some False
            \<longrightarrow> e \<notin> set (view_links (filteredGraphData g sel)))"
proof -
  have l: "view_links (filteredGraphData g sel) =
           filter (\<lambda>e. map_of sel (to_text (edge_experiment e)) = Some True) (graph_edges g)"
    using no_dangling_no_nodes [OF assms] by (simp add: view_links_eq visible_fun)
  show ?thesis unfolding l by auto
qed

theorem visibility_opt_in_witness:
  "no_dangling example_graph \<and>
   view_links (filteredGraphData example_graph [(''e1'', True), (''e2'', False)]) =
     [\<lparr>edge_id = ''e-0'', edge_source = ''m1:a'', edge_target = ''m1:b'',
       edge_label = Value ''r1'', edge_color = Value ''#FF6B6B'', edge_experiment = Value ''e1''\<rparr>] \<and>
   view_links (filteredGraphData example_graph [(''e1'', True)]) =
     [\<lparr>edge_id = ''e-0'', edge_source = ''m1:a'', edge_target = ''m1:b'',
       edge_label = Value ''r1'', edge_color = Value ''#FF6B6B'', edge_experiment = Value ''e1''\<rparr>]"
proof -
  have n: "no_dangling example_graph"
    by (simp add: no_dangling_def example_graph_eq)
  show ?thesis
    using n visibility_opt_in [OF n, of "[(''e1'', True), (''e2'', False)]"]
      visibility_opt_in [OF n, of "[(''e1'', True)]"]
    by (simp add: example_graph_eq to_text_def)
qed

text \<open>
  C5. For every graph and every selection, the nodes of the filtered view are exactly
  the nodes of the full graph that are the source or the target of at least one link of
  the view, in their order; a node of the full graph without such a link is not in the
  view.
\<close>

theorem view_nodes_incident:
  "view_nodes (filteredGraphData g sel) =
     filter (\<lambda>n. \<exists>e \<in> set (view_links (filteredGraphData g sel)).
                    edge_source e = node_id n \<or> edge_target e = node_id n) (graph_nodes g) \<and>
   set (view_nodes (filteredGraphData g sel)) =
     {n \<in> set (graph_nodes g). \<exists>e \<in> set (view_links (filteredGraphData g sel)).
                    edge_source e = node_id n \<or> edge_target e = node_id n}"
proof -
  have "view_nodes (filteredGraphData g sel) =
     filter (\<lambda>n. \<exists>e \<in> set (view_links (filteredGraphData g sel)).
                    edge_source e = node_id n \<or> edge_target e = node_id n) (graph_nodes g)"
  proof (cases "graph_nodes g = []")
    case True
    then show ?thesis by (simp add: view_nodes_eq)
  next
    case False
    then show ?thesis
      by (simp only: view_nodes_eq view_links_eq incident_iff if_False)
  qed
  then show ?thesis by (metis set_filter)
qed

theorem view_nodes_incident_witness:
  "view_nodes (filteredGraphData example_graph [(''e1'', True), (''e2'', False)]) =
     [\<lparr>node_id = ''m1:a'', node_label = ''a'', node_model = ''m1''\<rparr>,
      \<lparr>node_id = ''m1:b'', node_label = ''b'', node_model = ''m1''\<rparr>]"
proof -
  have l: "view_links (filteredGraphData example_graph [(''e1'', True), (''e2'', False)]) =
     [\<lparr>edge_id = ''e-0'', edge_source = ''m1:a'', edge_target = ''m1:b'',
       edge_label = Value ''r1'', edge_color = Value ''#FF6B6B'', edge_experiment = Value ''e1''\<rparr>]"
    by (simp add: view_links_eq visible_fun example_graph_eq to_text_def)
  show ?thesis
    using view_nodes_incident [of example_graph "[(''e1'', True), (''e2'', False)]"]
    unfolding l by (simp add: example_graph_eq)
qed

text \<open>
  C6, at the rows \<open>[row_proto, row_e1]\<close>. The first distinct tag in first-seen order is
  \<open>__proto__\<close>, the second is \<open>e1\<close>. The colour map built by \<open>processCSVData\<close> has the
  single key \<open>e1\<close> (with the colour of position 1): the tag of position 0 is assigned
  no colour, reading it from the map does not give the palette colour of position 0, and
  the edge that carries it gets the inherited member as its colour. For every other
  string tag the assignment is the round-robin one (\<open>assign_colors_palette\<close>,
  \<open>distinct_string_tags\<close>, \<open>experiments_first_seen\<close>, \<open>same_tag_same_color\<close>).
\<close>

theorem proto_tag_gets_no_color:
  "experiments (extract_rows default_headers [row_proto, row_e1]) =
     [Value ''__proto__'', Value ''e1''] \<and>
   experimentColorMap (processCSVData default_headers [row_proto, row_e1]) = [(''e1'', ''#4ECDC4'')] \<and>
   obj_get (experimentColorMap (processCSVData default_headers [row_proto, row_e1])) ''__proto__''
     \<noteq> Value (colors ! (0 mod length colors)) \<and>
   map edge_color (graph_edges (loaded_graph example_uuid
          (processCSVData default_headers [row_proto, row_e1])))
     = [Inherited ''__proto__'', Value ''#4ECDC4'']"
  by (simp add: experiments_proto processed_proto obj_get_def object_prototype_names_def
      loaded_graph_def make_edge_def to_text_def)

text \<open>
  C7. For every graph and all selections \<open>s1\<close> and \<open>s2\<close> such that every key that
  \<open>s2\<close> maps to \<open>true\<close> is mapped to \<open>true\<close> by \<open>s1\<close>, the view under \<open>s1\<close> contains
  every link and every node of the view under \<open>s2\<close>.
\<close>

theorem filter_monotone:
  assumes "{k. map_of s2 k = Some True} \<subseteq> {k. map_of s1 k = Some True}"
  shows "set (view_links (filteredGraphData g s2)) \<subseteq> set (view_links (filteredGraphData g s1)) \<and>
         set (view_nodes (filteredGraphData g s2)) \<subseteq> set (view_nodes (filteredGraphData g s1))"
proof -
  have v: "visible s2 e \<Longrightarrow> visible s1 e" for e
    using assms by (auto simp: visible_iff)
  show ?thesis
    unfolding view_links_eq view_nodes_eq using v by auto
qed

theorem filter_monotone_witness:
  "{k. map_of [(''e1'', True), (''e2'', False)] k = Some True}
     \<subseteq> {k. map_of [(''e1'', True), (''e2'', True)] k = Some True} \<and>
   set (view_links (filteredGraphData example_graph [(''e1'', True), (''e2'', False)]))
     \<subseteq> set (view_links (filteredGraphData example_graph [(''e1'', True), (''e2'', True)])) \<and>
   set (view_nodes (filteredGraphData example_graph [(''e1'', True), (''e2'', False)]))
     \<subseteq> set (view_nodes (filteredGraphData example_graph [(''e1'', True), (''e2'', True)]))"
proof -
  have s: "{k. map_of [(''e1'', True), (''e2'', False)] k = Some True}
     \<subseteq> {k. map_of [(''e1'', True), (''e2'', True)] k = Some True}"
    by auto
  show ?thesis
    using s filter_monotone [OF s, of example_graph] by simp
qed

text \<open>
  C8. For every list of raw rows, the nodes of the built graph have pairwise distinct
  ids, so that the id named by an accepted row (as source or as target) belongs to
  exactly one node however many rows name it; and the edges are the descriptors of the
  accepted rows, one for each accepted row and in row order, none merged. The loaded
  graph keeps one edge for each accepted row, and their ids are pairwise distinct when
  the generated identifiers are.
\<close>

theorem nodes_unique_edges_kept:
  "distinct (map node_id (nodes (processCSVData h rows))) \<and>
   (\<forall>r \<in> set rows. \<not> skipped h r \<longrightarrow>
      length (filter (\<lambda>n. node_id n = source (extracted_edge h r))
                (nodes (processCSVData h rows))) = 1 \<and>
      length (filter (\<lambda>n. node_id n = target (extracted_edge h r))
                (nodes (processCSVData h rows))) = 1) \<and>
   edges (processCSVData h rows) = map (extracted_edge h) (filter (\<lambda>r. \<not> skipped h r) rows) \<and>
   length (edges (processCSVData h rows)) = length (filter (\<lambda>r. \<not> skipped h r) rows) \<and>
   length (graph_edges (loaded_graph uuid (processCSVData h rows))) =
     length (filter (\<lambda>r. \<not> skipped h r) rows) \<and>
   (inj uuid \<longrightarrow> distinct (map edge_id (graph_edges (loaded_graph uuid (processCSVData h rows)))))"
proof -
  have "length (filter (\<lambda>n. node_id n = source (extracted_edge h r))
                (nodes (processCSVData h rows))) = 1 \<and>
        length (filter (\<lambda>n. node_id n = target (extracted_edge h r))
                (nodes (processCSVData h rows))) = 1"
    if "r \<in> set rows" "\<not> skipped h r" for r
  proof -
    from that have "extracted_edge h r \<in> set (edges (processCSVData h rows))"
      by (simp add: edges_processCSVData)
    then have "source (extracted_edge h r) \<in> set (map node_id (nodes (processCSVData h rows)))"
      and "target (extracted_edge h r) \<in> set (map node_id (nodes (processCSVData h rows)))"
      unfolding node_ids_processCSVData by blast+
    then show ?thesis by (simp only: one_node_per_id)
  qed
  then show ?thesis
    using distinct_node_ids [of h rows] edges_processCSVData [of h rows]
    by (simp add: length_loaded_edges distinct_edge_ids)
qed

theorem nodes_unique_edges_kept_witness:
  "row_r3 \<in> set [row_e1, row_r3] \<and> \<not> skipped default_headers row_r3 \<and>
   source (extracted_edge default_headers row_r3) = ''m1:a'' \<and>
   source (extracted_edge default_headers row_e1) = ''m1:a'' \<and>
   length (filter (\<lambda>n. node_id n = ''m1:a'')
             (nodes (processCSVData default_headers [row_e1, row_r3]))) = 1 \<and>
   length (edges (processCSVData default_headers [row_e1, row_r3])) = 2 \<and>
   inj example_uuid \<and>
   distinct (map edge_id (graph_edges (loaded_graph example_uuid
               (processCSVData default_headers [row_e1, row_r3]))))"
proof -
  have s: "\<not> skipped default_headers row_r3"
    by (simp add: eval_defs row_r3_def)
  have m: "row_r3 \<in> set [row_e1, row_r3]" by simp
  have e: "source (extracted_edge default_headers row_r3) = ''m1:a''"
    "source (extracted_edge default_headers row_e1) = ''m1:a''"
    by (simp_all add: eval_defs row_r3_def row_e1_def)
  have f: "filter (\<lambda>r. \<not> skipped default_headers r) [row_e1, row_r3] = [row_e1, row_r3]"
    by (simp add: eval_defs row_r3_def row_e1_def)
  from nodes_unique_edges_kept [of default_headers "[row_e1, row_r3]" example_uuid]
  have "(\<forall>r \<in> set [row_e1, row_r3]. \<not> skipped default_headers r \<longrightarrow>
      length (filter (\<lambda>n. node_id n = source (extracted_edge default_headers r))
                (nodes (processCSVData default_headers [row_e1, row_r3]))) = 1 \<and>
      length (filter (\<lambda>n. node_id n = target (extracted_edge default_headers r))
                (nodes (processCSVData default_headers [row_e1, row_r3]))) = 1)"
    and l: "length (edges (processCSVData default_headers [row_e1, row_r3])) =
       length (filter (\<lambda>r. \<not> skipped default_headers r) [row_e1, row_r3])"
    and d: "inj example_uuid \<longrightarrow>
       distinct (map edge_id (graph_edges (loaded_graph example_uuid
                   (processCSVData default_headers [row_e1, row_r3]))))"
    by blast+
  with m s have "length (filter (\<lambda>n. node_id n = source (extracted_edge default_headers row_r3))
                (nodes (processCSVData default_headers [row_e1, row_r3]))) = 1"
    by blast
  with m s e l f d inj_example_uuid show ?thesis by simp
qed

text \<open>
  C9. For every node of the built graph, the model field is the part of the id before
  the first separator and the label is all that follows that separator (further
  separators stay in the label); the model field, a separator and the label together give
  the id back, and the model field contains no separator.
\<close>

theorem node_split:
  "\<forall>n \<in> set (nodes (processCSVData h rows)).
     node_model n = takeWhile (\<lambda>x. x \<noteq> CHR '':'') (node_id n) \<and>
     node_label n = drop 1 (dropWhile (\<lambda>x. x \<noteq> CHR '':'') (node_id n)) \<and>
     node_model n @ '':'' @ node_label n = node_id n \<and>
     CHR '':'' \<notin> set (node_model n)"
proof
  fix n assume n: "n \<in> set (nodes (processCSVData h rows))"
  have m: "node_model n = takeWhile (\<lambda>x. x \<noteq> CHR '':'') (node_id n)"
    and l: "node_label n = drop 1 (dropWhile (\<lambda>x. x \<noteq> CHR '':'') (node_id n))"
    using node_fields [OF n] by simp_all
  have r: "node_model n @ '':'' @ node_label n = node_id n"
    unfolding m l using take_drop_sep [OF sep_in_node_id [OF n]] by simp
  have "CHR '':'' \<notin> set (takeWhile (\<lambda>x. x \<noteq> CHR '':'') (node_id n))"
    using set_takeWhileD by fastforce
  with m l r show "node_model n = takeWhile (\<lambda>x. x \<noteq> CHR '':'') (node_id n) \<and>
     node_label n = drop 1 (dropWhile (\<lambda>x. x \<noteq> CHR '':'') (node_id n)) \<and>
     node_model n @ '':'' @ node_label n = node_id n \<and>
     CHR '':'' \<notin> set (node_model n)" by simp
qed

theorem node_split_witness:
  "\<lparr>node_id = ''m1:a:x'', node_label = ''a:x'', node_model = ''m1''\<rparr>
     \<in> set (nodes (processCSVData default_headers [row_e1, row_e2])) \<and>
   ''m1'' = takeWhile (\<lambda>x. x \<noteq> CHR '':'') ''m1:a:x'' \<and>
   ''a:x'' = drop 1 (dropWhile (\<lambda>x. x \<noteq> CHR '':'') ''m1:a:x'') \<and>
   ''m1'' @ '':'' @ ''a:x'' = ''m1:a:x'' \<and> CHR '':'' \<notin> set ''m1''"
proof -
  let ?n = "\<lparr>node_id = ''m1:a:x'', node_label = ''a:x'', node_model = ''m1''\<rparr>"
  have m: "?n \<in> set (nodes (processCSVData default_headers [row_e1, row_e2]))"
    by (simp add: processed_e1_e2)
  from node_split [of default_headers "[row_e1, row_e2]"] m
  have "node_model ?n = takeWhile (\<lambda>x. x \<noteq> CHR '':'') (node_id ?n) \<and>
     node_label ?n = drop 1 (dropWhile (\<lambda>x. x \<noteq> CHR '':'') (node_id ?n)) \<and>
     node_model ?n @ '':'' @ node_label ?n = node_id ?n \<and>
     CHR '':'' \<notin> set (node_model ?n)"
    by (rule bspec)
  with m show ?thesis by simp
qed

text \<open>
  C10, at the load of the rows \<open>[row_proto, row_e1]\<close>. The loaded graph has two edges,
  with the tags \<open>__proto__\<close> and \<open>e1\<close>; the selection that the load installs has the
  single key \<open>e1\<close>; the view under that selection holds the \<open>e1\<close> edge only and so is not
  the full edge set. That no built graph has an isolated node is \<open>no_isolated_nodes\<close>,
  and when no tag has the key \<open>__proto__\<close> the initial view is the full graph
  (\<open>initial_view_is_full_graph\<close>).
\<close>

theorem proto_tag_hidden_after_load:
  "map edge_experiment (graph_edges (fullGraphData proto_state)) =
     [Value ''__proto__'', Value ''e1''] \<and>
   visibleExperiments proto_state = [(''e1'', True)] \<and>
   map edge_experiment
     (view_links (filteredGraphData (fullGraphData proto_state) (visibleExperiments proto_state)))
     = [Value ''e1''] \<and>
   view_links (filteredGraphData (fullGraphData proto_state) (visibleExperiments proto_state))
     \<noteq> graph_edges (fullGraphData proto_state)"
  by (simp add: proto_state_eq filteredGraphData_def visible_def obj_get_def to_text_def
      object_prototype_names_def set_add_def Let_def)

end
